theory Spec2Isabelle
  imports Main
begin

section \<open>The common declarations of the Swiss systems (swisssystems/common.h)\<close>

subsection \<open>Types taken from tournament/tournament.h\<close>

text \<open>
  Modelled from the spec: \<^verbatim>\<open>tournament::Color\<close> is declared in
  tournament/tournament.h, which is not among the sources. The spec gives it as the
  enumeration {WHITE, BLACK, NONE}; common.h itself names the enumerators
  \<^verbatim>\<open>COLOR_WHITE\<close> and \<^verbatim>\<open>COLOR_NONE\<close>.
\<close>

datatype Color = COLOR_WHITE | COLOR_BLACK | COLOR_NONE

text \<open>
  Modelled from the spec: \<^verbatim>\<open>tournament::player_index\<close> is declared in
  tournament/tournament.h as well; the spec calls it a dense integer handle into the
  player collection. No operation below does arithmetic on it.
\<close>

type_synonym player_index = nat

subsection \<open>The two exceptions\<close>

text \<open>
  \<^verbatim>\<open>NoValidPairingException\<close> (with its message, empty for the default
  constructor) and \<^verbatim>\<open>UnapplicableFeatureException\<close> (always with a message)
  are the two things a Swiss system can throw; a throwing function returns one of them
  on the left of a sum.
\<close>

datatype error =
    NoValidPairingException string
  | UnapplicableFeatureException string

definition NoValidPairingException0 :: error where
  "NoValidPairingException0 = NoValidPairingException ''''"

subsection \<open>Pairing\<close>

record Pairing =
  white :: player_index
  black :: player_index

text \<open>The two-argument constructor stores its arguments as they are.\<close>

definition Pairing2 :: "player_index \<Rightarrow> player_index \<Rightarrow> Pairing" where
  "Pairing2 white' black' = \<lparr>white = white', black = black'\<rparr>"

text \<open>
  The three-argument constructor compares the colour of player0 with
  \<^verbatim>\<open>COLOR_WHITE\<close> only, once for each field.
\<close>

definition Pairing3 :: "player_index \<Rightarrow> player_index \<Rightarrow> Color \<Rightarrow> Pairing" where
  "Pairing3 player0 player1 player0color =
     \<lparr>white = (if player0color = COLOR_WHITE then player0 else player1),
      black = (if player0color = COLOR_WHITE then player1 else player0)\<rparr>"

subsection \<open>Info\<close>

text \<open>
  \<^verbatim>\<open>Info\<close> is an abstract class. \<^verbatim>\<open>computeMatching\<close> is pure virtual,
  so every object carries an implementation of it; \<^verbatim>\<open>updateAccelerations\<close> is
  virtual with a body, so an object either overrides it or inherits the body below.
  The tournament type \<open>'t\<close> (tournament.h) and the type \<open>'o\<close> of what is written to
  the stream are parameters. A call that takes the tournament by reference returns
  its outcome together with the tournament as the call leaves it.
\<close>

record ('t, 'o) Info =
  computeMatching :: "'t \<Rightarrow> 'o list option \<Rightarrow> error + Pairing list"
  updateAccelerations_override :: "('t \<Rightarrow> (error + unit) \<times> 't) option"

text \<open>The body of \<^verbatim>\<open>Info::updateAccelerations\<close>: a single throw.\<close>

definition Info_updateAccelerations :: "'t \<Rightarrow> (error + unit) \<times> 't" where
  "Info_updateAccelerations t =
     (Inl (UnapplicableFeatureException
        ''The selected Swiss system does not have a default acceleration system.''), t)"

text \<open>The virtual call.\<close>

definition updateAccelerations :: "('t, 'o) Info \<Rightarrow> 't \<Rightarrow> (error + unit) \<times> 't" where
  "updateAccelerations info t =
     (case updateAccelerations_override info of
        None \<Rightarrow> Info_updateAccelerations t
      | Some f \<Rightarrow> f t)"

subsection \<open>colorPreferencesAreCompatible\<close>

definition colorPreferencesAreCompatible :: "Color \<Rightarrow> Color \<Rightarrow> bool" where
  "colorPreferencesAreCompatible preference0 preference1 =
     (preference0 \<noteq> preference1
        \<or> preference0 = COLOR_NONE
        \<or> preference1 = COLOR_NONE)"


subsection \<open>findFirstColorDifference\<close>

text \<open>
  Modelled from the spec: \<^verbatim>\<open>findFirstColorDifference\<close> is only declared in
  common.h (lines 125-129); its body, and the class \<^verbatim>\<open>tournament::Player\<close> it
  reads, are in files that are not among the sources. The spec says that it "scans each
  player's round-by-round color history from the most recent round backward and returns
  the first round at which the two histories diverge in color, expressed as the color
  each player had in that round (NONE if the scan exhausts one player's shorter history
  without divergence)". Of a Player only the colour history is read: one colour for each
  round, the earliest round first (the history is append-only).
\<close>

record Player =
  colorHistory :: "Color list"

text \<open>The scan over the two histories, both given with the most recent round first.\<close>

fun scanColorDifference :: "Color list \<Rightarrow> Color list \<Rightarrow> Color \<times> Color" where
  "scanColorDifference (c0 # older0) (c1 # older1) =
     (if c0 \<noteq> c1 then (c0, c1) else scanColorDifference older0 older1)"
| "scanColorDifference [] h1 = (COLOR_NONE, COLOR_NONE)"
| "scanColorDifference h0 [] = (COLOR_NONE, COLOR_NONE)"

text \<open>The two output parameters are returned as a pair (color0, color1).\<close>

definition findFirstColorDifference :: "Player \<Rightarrow> Player \<Rightarrow> Color \<times> Color" where
  "findFirstColorDifference player0 player1 =
     scanColorDifference (rev (colorHistory player0)) (rev (colorHistory player1))"

subsection \<open>sortResults\<close>

text \<open>
  Modelled from the spec: \<^verbatim>\<open>sortResults\<close> is only declared in common.h (line
  131); its body and the comparison it sorts by are in a file that is not among the
  sources. The spec's Result Orderer orders Pairings by "primary key = board number
  (assigned by descending combined score of the pairing ...), secondary key = a stable
  pre-existing rank/index". What the tournament contributes is taken as two parameters:
  the score of each player, and the rank/index of a Pairing (the spec does not say how
  it is obtained, so every choice of it is covered).
\<close>

definition combinedScore :: "(player_index \<Rightarrow> int) \<Rightarrow> Pairing \<Rightarrow> int" where
  "combinedScore score p = score (white p) + score (black p)"

text \<open>
  \<open>resultBefore score rank p q\<close>: p gets the earlier board, by the greater combined
  score, and among equal combined scores by the smaller rank/index.
\<close>

definition resultBefore ::
  "(player_index \<Rightarrow> int) \<Rightarrow> (Pairing \<Rightarrow> nat) \<Rightarrow> Pairing \<Rightarrow> Pairing \<Rightarrow> bool" where
  "resultBefore score rank p q =
     (combinedScore score q < combinedScore score p
        \<or> (combinedScore score p = combinedScore score q \<and> rank p < rank q))"

text \<open>
  Sorting a \<^verbatim>\<open>std::list\<close> by a comparison is stable: elements that the comparison
  does not separate keep their order. Insertion from the right end does the same: an
  element goes in front of the first element that is not before it.
\<close>

fun insertResult ::
  "(Pairing \<Rightarrow> Pairing \<Rightarrow> bool) \<Rightarrow> Pairing \<Rightarrow> Pairing list \<Rightarrow> Pairing list" where
  "insertResult before x [] = [x]"
| "insertResult before x (y # ys) =
     (if before y x then y # insertResult before x ys else x # y # ys)"

fun sortWith :: "(Pairing \<Rightarrow> Pairing \<Rightarrow> bool) \<Rightarrow> Pairing list \<Rightarrow> Pairing list" where
  "sortWith before [] = []"
| "sortWith before (x # xs) = insertResult before x (sortWith before xs)"

definition sortResults ::
  "(player_index \<Rightarrow> int) \<Rightarrow> (Pairing \<Rightarrow> nat) \<Rightarrow> Pairing list \<Rightarrow> Pairing list" where
  "sortResults score rank pairs = sortWith (resultBefore score rank) pairs"

text \<open>A list is in order when no element is before an earlier one.\<close>

definition inResultOrder ::
  "(player_index \<Rightarrow> int) \<Rightarrow> (Pairing \<Rightarrow> nat) \<Rightarrow> Pairing list \<Rightarrow> bool" where
  "inResultOrder score rank pairs =
     sorted_wrt (\<lambda>a b. \<not> resultBefore score rank b a) pairs"


section \<open>Properties\<close>

subsection \<open>Colour preferences\<close>

text \<open>
  Claim C2. For all colours a and b, colorPreferencesAreCompatible a b is true exactly
  when a and b are not the same concrete (non-NONE) colour; it is false exactly when
  a = b and a is WHITE or BLACK. The function is a total HOL function of its two
  arguments, so it has a value on every pair of colours and no effect besides it.
\<close>

theorem colorPreferencesAreCompatible_iff:
  "colorPreferencesAreCompatible a b = (\<not> (a = b \<and> a \<noteq> COLOR_NONE))
   \<and> ((\<not> colorPreferencesAreCompatible a b) =
        (a = b \<and> (a = COLOR_WHITE \<or> a = COLOR_BLACK)))"
  by (cases a; cases b) (simp_all add: colorPreferencesAreCompatible_def)

theorem colorPreferencesAreCompatible_iff_witness:
  "colorPreferencesAreCompatible COLOR_WHITE COLOR_WHITE = False
   \<and> colorPreferencesAreCompatible COLOR_BLACK COLOR_BLACK = False
   \<and> colorPreferencesAreCompatible COLOR_WHITE COLOR_BLACK = True
   \<and> colorPreferencesAreCompatible COLOR_NONE COLOR_NONE = True"
  using colorPreferencesAreCompatible_iff [of COLOR_WHITE COLOR_WHITE]
    colorPreferencesAreCompatible_iff [of COLOR_BLACK COLOR_BLACK]
    colorPreferencesAreCompatible_iff [of COLOR_WHITE COLOR_BLACK]
    colorPreferencesAreCompatible_iff [of COLOR_NONE COLOR_NONE]
  by simp

text \<open>
  Claim C3. colorPreferencesAreCompatible is symmetric, and it is true whenever either
  argument is NONE (so also for NONE and NONE).
\<close>

theorem colorPreferencesAreCompatible_sym_none:
  "colorPreferencesAreCompatible a b = colorPreferencesAreCompatible b a
   \<and> colorPreferencesAreCompatible COLOR_NONE b
   \<and> colorPreferencesAreCompatible a COLOR_NONE
   \<and> colorPreferencesAreCompatible COLOR_NONE COLOR_NONE"
  by (auto simp add: colorPreferencesAreCompatible_def)

theorem colorPreferencesAreCompatible_sym_none_witness:
  "colorPreferencesAreCompatible COLOR_WHITE COLOR_BLACK
     = colorPreferencesAreCompatible COLOR_BLACK COLOR_WHITE
   \<and> colorPreferencesAreCompatible COLOR_NONE COLOR_BLACK
   \<and> colorPreferencesAreCompatible COLOR_WHITE COLOR_NONE"
  using colorPreferencesAreCompatible_sym_none [of COLOR_WHITE COLOR_BLACK]
  by simp

subsection \<open>The constructors of Pairing\<close>

text \<open>
  Claim C5. The three-argument constructor gives player0 the colour it is told: with
  WHITE, white is player0 and black is player1; with BLACK, white is player1 and black
  is player0.
\<close>

theorem Pairing3_resolves_color:
  "white (Pairing3 p0 p1 COLOR_WHITE) = p0 \<and> black (Pairing3 p0 p1 COLOR_WHITE) = p1
   \<and> white (Pairing3 p0 p1 COLOR_BLACK) = p1 \<and> black (Pairing3 p0 p1 COLOR_BLACK) = p0"
  by (simp add: Pairing3_def)

theorem Pairing3_resolves_color_witness:
  "white (Pairing3 4 7 COLOR_WHITE) = 4 \<and> black (Pairing3 4 7 COLOR_WHITE) = 7
   \<and> white (Pairing3 4 7 COLOR_BLACK) = 7 \<and> black (Pairing3 4 7 COLOR_BLACK) = 4"
  using Pairing3_resolves_color [of 4 7]
  by simp

text \<open>
  Claim C9. With COLOR_NONE as the colour of player0 the three-argument constructor
  sets white to player1 and black to player0, which is the Pairing it builds for
  COLOR_BLACK: NONE is not refused and has no case of its own.
\<close>

theorem Pairing3_none_as_black:
  "white (Pairing3 p0 p1 COLOR_NONE) = p1 \<and> black (Pairing3 p0 p1 COLOR_NONE) = p0
   \<and> Pairing3 p0 p1 COLOR_NONE = Pairing3 p0 p1 COLOR_BLACK"
  by (simp add: Pairing3_def)

theorem Pairing3_none_as_black_witness:
  "white (Pairing3 4 7 COLOR_NONE) = 7 \<and> black (Pairing3 4 7 COLOR_NONE) = 4
   \<and> Pairing3 4 7 COLOR_NONE = Pairing3 4 7 COLOR_BLACK"
  by (rule Pairing3_none_as_black [of 4 7])

text \<open>
  Claim C6, as stated: every Pairing has white \<noteq> black. Neither constructor checks
  its arguments, so a Pairing of a player with themself is constructed like any other.
\<close>

theorem Pairing_self_counterexample:
  "\<not> (white (Pairing2 3 3) \<noteq> black (Pairing2 3 3))
   \<and> \<not> (white (Pairing3 3 3 COLOR_WHITE) \<noteq> black (Pairing3 3 3 COLOR_WHITE))"
  by (simp add: Pairing2_def Pairing3_def)

text \<open>
  Claim C6, amended. A Pairing has white \<noteq> black exactly when it is constructed from
  two different player indices, with either constructor and any colour; its two players
  are the two it was constructed from. The constructors check neither that the indices
  differ nor that they are valid or active: that is left to the caller.
\<close>

theorem Pairing_distinct_iff:
  "(p0 \<noteq> p1 \<longrightarrow>
      white (Pairing2 p0 p1) \<noteq> black (Pairing2 p0 p1)
      \<and> white (Pairing3 p0 p1 c) \<noteq> black (Pairing3 p0 p1 c))
   \<and> (white (Pairing2 p0 p1) = black (Pairing2 p0 p1)) = (p0 = p1)
   \<and> (white (Pairing3 p0 p1 c) = black (Pairing3 p0 p1 c)) = (p0 = p1)
   \<and> {white (Pairing2 p0 p1), black (Pairing2 p0 p1)} = {p0, p1}
   \<and> {white (Pairing3 p0 p1 c), black (Pairing3 p0 p1 c)} = {p0, p1}"
  by (auto simp add: Pairing2_def Pairing3_def)

theorem Pairing_distinct_iff_witness:
  "white (Pairing2 4 7) \<noteq> black (Pairing2 4 7)
   \<and> white (Pairing3 4 7 COLOR_NONE) \<noteq> black (Pairing3 4 7 COLOR_NONE)
   \<and> {white (Pairing3 4 7 COLOR_NONE), black (Pairing3 4 7 COLOR_NONE)} = {4, 7}"
proof -
  have d: "(4::nat) \<noteq> 7" by simp
  show ?thesis using d Pairing_distinct_iff [of 4 7 COLOR_NONE] by simp
qed

subsection \<open>updateAccelerations without a default acceleration system\<close>

text \<open>
  Claim C4. For an Info that does not override updateAccelerations, the call throws
  UnapplicableFeatureException with the message that the selected Swiss system has no
  default acceleration system; it does not throw NoValidPairingException, with any
  message; and the two exceptions are different values whatever their messages.
\<close>

theorem updateAccelerations_unapplicable:
  "updateAccelerations_override info = None \<Longrightarrow>
     fst (updateAccelerations info t) =
       Inl (UnapplicableFeatureException
         ''The selected Swiss system does not have a default acceleration system.'')
     \<and> (\<forall>m. fst (updateAccelerations info t) \<noteq> Inl (NoValidPairingException m))
     \<and> fst (updateAccelerations info t) \<noteq> Inl NoValidPairingException0
     \<and> (\<forall>m m'. UnapplicableFeatureException m \<noteq> NoValidPairingException m')"
  by (simp add: updateAccelerations_def Info_updateAccelerations_def
      NoValidPairingException0_def)

theorem updateAccelerations_unapplicable_witness:
  "fst (updateAccelerations
      \<lparr>computeMatching = (\<lambda>(t::nat) (s::string list option). Inr []),
       updateAccelerations_override = None\<rparr> 5) =
    Inl (UnapplicableFeatureException
      ''The selected Swiss system does not have a default acceleration system.'')"
  using updateAccelerations_unapplicable
    [of "\<lparr>computeMatching = (\<lambda>(t::nat) (s::string list option). Inr []),
          updateAccelerations_override = None\<rparr>" 5]
  by simp

text \<open>
  Claim C10. The inherited updateAccelerations throws before it touches the tournament:
  when the call on an Info without an override ends in UnapplicableFeatureException,
  the tournament it was given is the tournament it leaves. (Without an override the
  call always ends so.)
\<close>

theorem updateAccelerations_throw_keeps_tournament:
  "updateAccelerations_override info = None \<Longrightarrow>
     (fst (updateAccelerations info t) = Inl (UnapplicableFeatureException m)
        \<longrightarrow> snd (updateAccelerations info t) = t)
     \<and> (\<exists>m'. fst (updateAccelerations info t) = Inl (UnapplicableFeatureException m'))
     \<and> snd (updateAccelerations info t) = t"
  by (simp add: updateAccelerations_def Info_updateAccelerations_def)

theorem updateAccelerations_throw_keeps_tournament_witness:
  "snd (updateAccelerations
      \<lparr>computeMatching = (\<lambda>(t::nat list) (s::string list option). Inr []),
       updateAccelerations_override = None\<rparr> [30, 30, 10, 10]) = [30, 30, 10, 10]"
  using updateAccelerations_throw_keeps_tournament
    [of "\<lparr>computeMatching = (\<lambda>(t::nat list) (s::string list option). Inr []),
          updateAccelerations_override = None\<rparr>" "[30, 30, 10, 10]"]
  by simp

subsection \<open>The first colour difference\<close>

lemma scanColorDifference_same:
  "scanColorDifference h h = (COLOR_NONE, COLOR_NONE)"
  by (induction h) simp_all

lemma scanColorDifference_first:
  "a \<noteq> b \<Longrightarrow>
     scanColorDifference (recent @ a # older0) (recent @ b # older1) = (a, b)"
  by (induction recent) simp_all

text \<open>
  Claim C7. For two players with the same round-by-round colour history,
  findFirstColorDifference gives NONE and NONE. For two players whose histories differ
  at the earliest round and nowhere else, it gives the colours the two had in that
  earliest round: the scan starts at the most recent round and goes through the whole
  history. In general, when the two histories agree on the most recent rounds and
  differ in the round before those, it gives the colours of that round, whatever came
  earlier. The result is a function of the two histories.
\<close>

theorem findFirstColorDifference_same_and_earliest:
  "(colorHistory player0 = colorHistory player1 \<longrightarrow>
      findFirstColorDifference player0 player1 = (COLOR_NONE, COLOR_NONE))
   \<and> (colorHistory player0 = a # later \<and> colorHistory player1 = b # later \<and> a \<noteq> b \<longrightarrow>
      findFirstColorDifference player0 player1 = (a, b))
   \<and> (colorHistory player0 = older0 @ a # recent
        \<and> colorHistory player1 = older1 @ b # recent \<and> a \<noteq> b \<longrightarrow>
      findFirstColorDifference player0 player1 = (a, b))"
proof -
  have same: "colorHistory player0 = colorHistory player1 \<longrightarrow>
      findFirstColorDifference player0 player1 = (COLOR_NONE, COLOR_NONE)"
    by (simp add: findFirstColorDifference_def scanColorDifference_same)
  have first: "findFirstColorDifference player0 player1 = (a, b)"
    if "colorHistory player0 = xs @ a # rs"
      and "colorHistory player1 = ys @ b # rs" and "a \<noteq> b" for xs ys rs
    using that scanColorDifference_first [of a b "rev rs" "rev xs" "rev ys"]
    by (simp add: findFirstColorDifference_def)
  from first [of "[]" later "[]"] first [of older0 recent older1] same
  show ?thesis by simp
qed

theorem findFirstColorDifference_same_and_earliest_witness:
  "findFirstColorDifference
     \<lparr>colorHistory = [COLOR_WHITE, COLOR_BLACK, COLOR_WHITE]\<rparr>
     \<lparr>colorHistory = [COLOR_WHITE, COLOR_BLACK, COLOR_WHITE]\<rparr> = (COLOR_NONE, COLOR_NONE)
   \<and> findFirstColorDifference
     \<lparr>colorHistory = [COLOR_WHITE, COLOR_BLACK, COLOR_WHITE]\<rparr>
     \<lparr>colorHistory = [COLOR_BLACK, COLOR_BLACK, COLOR_WHITE]\<rparr> = (COLOR_WHITE, COLOR_BLACK)"
  using findFirstColorDifference_same_and_earliest
      [of "\<lparr>colorHistory = [COLOR_WHITE, COLOR_BLACK, COLOR_WHITE]\<rparr>"
          "\<lparr>colorHistory = [COLOR_WHITE, COLOR_BLACK, COLOR_WHITE]\<rparr>"]
    findFirstColorDifference_same_and_earliest
      [of "\<lparr>colorHistory = [COLOR_WHITE, COLOR_BLACK, COLOR_WHITE]\<rparr>"
          "\<lparr>colorHistory = [COLOR_BLACK, COLOR_BLACK, COLOR_WHITE]\<rparr>"
          COLOR_WHITE "[COLOR_BLACK, COLOR_WHITE]" COLOR_BLACK]
  by simp

subsection \<open>The order of the results\<close>

lemma resultBefore_irrefl: "\<not> resultBefore s r p p"
  by (simp add: resultBefore_def)

lemma resultBefore_trans:
  "resultBefore s r p q \<Longrightarrow> resultBefore s r q u \<Longrightarrow> resultBefore s r p u"
  by (auto simp add: resultBefore_def)

lemma resultBefore_asym: "resultBefore s r p q \<Longrightarrow> \<not> resultBefore s r q p"
  by (auto simp add: resultBefore_def)

lemma resultBefore_negtrans:
  "\<not> resultBefore s r p q \<Longrightarrow> \<not> resultBefore s r q u \<Longrightarrow> \<not> resultBefore s r p u"
  by (auto simp add: resultBefore_def)

lemma set_insertResult: "set (insertResult before x ys) = insert x (set ys)"
  by (induction ys) auto

lemma insertResult_in_order:
  "sorted_wrt (\<lambda>a b. \<not> before b a) (x # ys) \<Longrightarrow> insertResult before x ys = x # ys"
  by (cases ys) simp_all

lemma sortWith_in_order:
  "sorted_wrt (\<lambda>a b. \<not> before b a) xs \<Longrightarrow> sortWith before xs = xs"
proof (induction xs)
  case Nil
  show ?case by simp
next
  case (Cons x xs)
  from Cons.prems have "sorted_wrt (\<lambda>a b. \<not> before b a) xs" by simp
  then have "sortWith before xs = xs" by (rule Cons.IH)
  with Cons.prems show ?case by (simp add: insertResult_in_order del: sorted_wrt.simps)
qed

lemma inResultOrder_insertResult:
  "inResultOrder s r ys \<Longrightarrow> inResultOrder s r (insertResult (resultBefore s r) x ys)"
proof (induction ys)
  case Nil
  show ?case by (simp add: inResultOrder_def)
next
  case (Cons y ys)
  show ?case
  proof (cases "resultBefore s r y x")
    case True
    from Cons.prems have tl: "inResultOrder s r ys"
      and hd: "\<forall>z\<in>set ys. \<not> resultBefore s r z y"
      by (simp_all add: inResultOrder_def)
    from True have "\<not> resultBefore s r x y" by (rule resultBefore_asym)
    with hd have "\<forall>z\<in>set (insertResult (resultBefore s r) x ys). \<not> resultBefore s r z y"
      by (simp add: set_insertResult)
    with Cons.IH [OF tl] True show ?thesis by (simp add: inResultOrder_def)
  next
    case False
    from Cons.prems have hd: "\<forall>z\<in>set ys. \<not> resultBefore s r z y"
      by (simp add: inResultOrder_def)
    have "\<forall>z\<in>set ys. \<not> resultBefore s r z x"
    proof
      fix z assume "z \<in> set ys"
      with hd have "\<not> resultBefore s r z y" by simp
      then show "\<not> resultBefore s r z x" using False by (rule resultBefore_negtrans)
    qed
    with False Cons.prems show ?thesis by (simp add: inResultOrder_def)
  qed
qed

lemma inResultOrder_sortWith: "inResultOrder s r (sortWith (resultBefore s r) ps)"
proof (induction ps)
  case Nil
  show ?case by (simp add: inResultOrder_def)
next
  case (Cons p ps)
  then show ?case by (simp add: inResultOrder_insertResult)
qed

text \<open>
  Claim C8. The comparison that sortResults sorts by is a strict weak ordering: no
  Pairing is before itself, the comparison is transitive, and being separated by it in
  neither direction is transitive. Sorting is idempotent: sortResults leaves a list
  that is already in order as it is, its result is in order, and so sorting a second
  time changes nothing.
\<close>

theorem sortResults_strict_weak_idempotent:
  "\<not> resultBefore s r p p
   \<and> (resultBefore s r p q \<and> resultBefore s r q u \<longrightarrow> resultBefore s r p u)
   \<and> (\<not> resultBefore s r p q \<and> \<not> resultBefore s r q p
        \<and> \<not> resultBefore s r q u \<and> \<not> resultBefore s r u q
      \<longrightarrow> \<not> resultBefore s r p u \<and> \<not> resultBefore s r u p)
   \<and> (inResultOrder s r ps \<longrightarrow> sortResults s r ps = ps)
   \<and> inResultOrder s r (sortResults s r ps)
   \<and> sortResults s r (sortResults s r ps) = sortResults s r ps"
proof -
  have irrefl: "\<not> resultBefore s r p p" by (rule resultBefore_irrefl)
  have trans: "resultBefore s r p q \<and> resultBefore s r q u \<longrightarrow> resultBefore s r p u"
    using resultBefore_trans by blast
  have incomp: "\<not> resultBefore s r p q \<and> \<not> resultBefore s r q p
        \<and> \<not> resultBefore s r q u \<and> \<not> resultBefore s r u q
      \<longrightarrow> \<not> resultBefore s r p u \<and> \<not> resultBefore s r u p"
    using resultBefore_negtrans by blast
  have same: "inResultOrder s r ps \<longrightarrow> sortResults s r ps = ps" for ps
    by (simp add: inResultOrder_def sortResults_def sortWith_in_order)
  have ordered: "inResultOrder s r (sortResults s r ps)"
    by (simp add: sortResults_def inResultOrder_sortWith)
  from same ordered have "sortResults s r (sortResults s r ps) = sortResults s r ps"
    by blast
  with irrefl trans incomp same ordered show ?thesis by blast
qed

theorem sortResults_strict_weak_idempotent_witness:
  "sortResults (\<lambda>i. if i < 2 then 30 else 10) white [Pairing2 0 2, Pairing2 1 3]
     = [Pairing2 0 2, Pairing2 1 3]
   \<and> sortResults (\<lambda>i. if i < 2 then 30 else 10) white
       (sortResults (\<lambda>i. if i < 2 then 30 else 10) white [Pairing2 2 3, Pairing2 1 0])
     = sortResults (\<lambda>i. if i < 2 then 30 else 10) white [Pairing2 2 3, Pairing2 1 0]"
proof -
  have ord: "inResultOrder (\<lambda>i. if i < 2 then 30 else 10) white
      [Pairing2 0 2, Pairing2 1 3]"
    by (simp add: inResultOrder_def resultBefore_def combinedScore_def Pairing2_def)
  show ?thesis
    using ord
      sortResults_strict_weak_idempotent
        [of "\<lambda>i. if i < 2 then 30 else 10" white _ _ _ "[Pairing2 0 2, Pairing2 1 3]"]
      sortResults_strict_weak_idempotent
        [of "\<lambda>i. if i < 2 then 30 else 10" white _ _ _ "[Pairing2 2 3, Pairing2 1 0]"]
    by blast
qed

end
